theory Spec2Isabelle
  imports Main
begin

section \<open>Python values used by app.py\<close>

text \<open>
  A Python \<open>str\<close> is modelled as a \<open>string\<close>: one \<open>char\<close> stands for one code point below
  256. Exceptions are values. Only subclasses of \<open>Exception\<close> are modelled (what
  \<open>except Exception\<close> catches); each carries the text that \<open>str(e)\<close> gives.
  \<open>APIError\<close> is \<open>google.genai.errors.APIError\<close>, \<open>HTTPException\<close> is what Flask raises
  while it reads a request (with its status code), \<open>OtherException\<close> is any other one.
  Diagnostic \<open>print\<close> calls are left out.
\<close>

datatype exn = APIError string | HTTPException nat string | OtherException string

fun str_exn :: "exn \<Rightarrow> string" where
  "str_exn (APIError m) = m"
| "str_exn (HTTPException code m) = m"
| "str_exn (OtherException m) = m"

fun is_APIError :: "exn \<Rightarrow> bool" where
  "is_APIError (APIError m) = True"
| "is_APIError (HTTPException code m) = False"
| "is_APIError (OtherException m) = False"

subsection \<open>String methods\<close>

text \<open>\<open>str.isspace\<close> on one character: the white space code points below 256.\<close>

definition isspace :: "char \<Rightarrow> bool" where
  "isspace c =
     (let n = (of_char c :: nat)
      in (9 \<le> n \<and> n \<le> 13) \<or> (28 \<le> n \<and> n \<le> 32) \<or> n = 133 \<or> n = 160)"

text \<open>\<open>str.strip()\<close>: drop leading and trailing white space.\<close>

definition strip :: "string \<Rightarrow> string" where
  "strip s = rev (dropWhile isspace (rev (dropWhile isspace s)))"

text \<open>\<open>str.lower()\<close>: the cased code points below 256 are A-Z and 0xC0-0xDE except 0xD7.\<close>

definition lower_char :: "char \<Rightarrow> char" where
  "lower_char c =
     (let n = (of_char c :: nat)
      in if (65 \<le> n \<and> n \<le> 90) \<or> (192 \<le> n \<and> n \<le> 222 \<and> n \<noteq> 215)
         then char_of (n + 32) else c)"

definition lower :: "string \<Rightarrow> string" where
  "lower s = map lower_char s"

definition endswith :: "string \<Rightarrow> string \<Rightarrow> bool" where
  "endswith s suffix =
     (length suffix \<le> length s \<and> drop (length s - length suffix) s = suffix)"

text \<open>\<open>str(n)\<close> for a natural number, as the f-string of line 147 formats \<open>MAX_RETRIES\<close>.\<close>

definition digit_char :: "nat \<Rightarrow> char" where
  "digit_char d = char_of (48 + d)"

function str_nat :: "nat \<Rightarrow> string" where
  "str_nat n = (if n < 10 then [digit_char n] else str_nat (n div 10) @ [digit_char (n mod 10)])"
  by pat_completeness auto
termination
  by (relation "measure id") auto

declare str_nat.simps [simp del]

section \<open>Configuration and start-up (lines 16-34)\<close>

definition MODEL_NAME :: string where
  "MODEL_NAME = ''gemini-2.0-flash''"

definition MAX_CONTENT_LENGTH :: nat where
  "MAX_CONTENT_LENGTH = 16 * 1024 * 1024"

text \<open>
  The client object answers \<open>client.models.generate_content(model, contents, config)\<close>.
  Its first argument here is the number of calls this request has already made, so that a
  stub can fail on some calls and succeed on others; the result is the raised exception
  or \<open>response.text\<close>.
\<close>

type_synonym client = "nat \<Rightarrow> string \<Rightarrow> string \<Rightarrow> string \<Rightarrow> exn + string"

text \<open>
  Lines 23-34. The key of line 16 and the constructor \<open>genai.Client\<close> are parameters:
  \<open>client\<close> stays \<open>None\<close> when the key is empty or the constructor raises.
\<close>

definition init_client :: "string \<Rightarrow> (string \<Rightarrow> exn + 'c) \<Rightarrow> 'c option" where
  "init_client GEMINI_API_KEY Client =
     (if GEMINI_API_KEY \<noteq> [] then
        (case Client GEMINI_API_KEY of
           Inr c \<Rightarrow> Some c
         | Inl e \<Rightarrow> None)
      else None)"

section \<open>PDF text extraction (lines 38-51)\<close>

text \<open>
  \<open>PdfReader\<close> is a parameter: on the bytes of a document it raises or gives the pages;
  a page is the outcome of \<open>page.extract_text()\<close>, an exception or a string.
\<close>

type_synonym page = "exn + string"
type_synonym pdf_reader = "string \<Rightarrow> exn + page list"

text \<open>The loop of lines 43-47, with \<open>text\<close> as accumulator.\<close>

fun extract_pages :: "page list \<Rightarrow> string \<Rightarrow> exn + string" where
  "extract_pages [] text = Inr text"
| "extract_pages (p # pages) text =
     (case p of
        Inl e \<Rightarrow> Inl e
      | Inr page_text \<Rightarrow>
          extract_pages pages
            (if page_text \<noteq> [] then text @ (page_text @ ''\<newline>'') else text))"

definition extract_text_from_pdf :: "pdf_reader \<Rightarrow> string \<Rightarrow> string option" where
  "extract_text_from_pdf PdfReader pdf_file_stream =
     (case PdfReader pdf_file_stream of
        Inl e \<Rightarrow> None
      | Inr pages \<Rightarrow>
          (case extract_pages pages [] of
             Inl e \<Rightarrow> None
           | Inr text \<Rightarrow> Some (strip text)))"

text \<open>Python's \<open>not resume_text\<close> (line 91) on a value that is \<open>None\<close> or a string.\<close>

definition py_not :: "string option \<Rightarrow> bool" where
  "py_not v = (case v of None \<Rightarrow> True | Some s \<Rightarrow> s = [])"

section \<open>Prompt construction (lines 95-121)\<close>

definition system_instruction :: string where
  "system_instruction =
     ''You are a world-class Applicant Tracking System (ATS) and Career Coach. '' @
     ''Your task is to analyze a candidate's resume against a specific job description. '' @
     ''Provide the analysis in structured markdown format with four distinct sections. '' @
     ''Ensure the output is clean, well-formatted markdown, ready for display.''"

definition user_prompt :: "string \<Rightarrow> string \<Rightarrow> string" where
  "user_prompt job_description resume_text =
     ''\<newline>        Analyze the candidate's resume based on the following job description.\<newline>\<newline>        ## Job Description:\<newline>        ---\<newline>        ''
     @ job_description @
     ''\<newline>        ---\<newline>\<newline>        ## Candidate Resume Text (Extracted):\<newline>        ---\<newline>        ''
     @ resume_text @
     ''\<newline>        ---\<newline>\<newline>        Your analysis must strictly follow this structure:\<newline>\<newline>        1.  **ATS Match Score:** A percentage score out of 100 (e.g., 78/100) indicating the match level. Use bold text for the score.\<newline>        2.  **Missing Keywords/Skills:** A bulleted list of up to 5 essential skills/keywords mentioned in the Job Description but *missing* from the Resume. If none are missing, state that clearly.\<newline>        3.  **Summary of Strengths:** A concise, single paragraph highlighting the candidate's best relevant qualifications for the role.\<newline>        4.  **Actionable Improvement Suggestions:** A bulleted list of 3-5 concrete, specific suggestions on how to modify the resume text to increase the match score.\<newline>        ''"

section \<open>Responses, effects and the retry loop (lines 124-152)\<close>

text \<open>
  \<open>jsonify\<close> bodies: \<open>{"error": m}\<close> and \<open>{"success": true, "analysis": t}\<close>. A view
  function returns a response, falls off its end (returns \<open>None\<close>) or raises.
\<close>

datatype json_body = Error_body string | Success_body string

record response =
  status :: nat
  body :: json_body

datatype outcome = Returned response | Returned_None | Raised exn

text \<open>
  The effects a request has on the outside: a call of \<open>generate_content\<close> with its model,
  contents and system instruction, and \<open>time.sleep\<close> with its seconds. The handler returns
  its outcome with the effects in the order they happened.
\<close>

datatype event = Generate_content string string string | Sleep nat

fun is_call :: "event \<Rightarrow> bool" where
  "is_call (Generate_content m u s) = True"
| "is_call (Sleep n) = False"

definition MAX_RETRIES :: nat where
  "MAX_RETRIES = 3"

text \<open>
  The body of \<open>for attempt in range(MAX_RETRIES)\<close>, by recursion on the attempts left;
  \<open>except APIError\<close> is tried before \<open>except Exception\<close>.
\<close>

fun retry_loop :: "client \<Rightarrow> string \<Rightarrow> nat list \<Rightarrow> event list \<Rightarrow> outcome \<times> event list" where
  "retry_loop c prompt [] tr = (Returned_None, tr)"
| "retry_loop c prompt (attempt # attempts) tr =
     (let tr' = tr @ [Generate_content MODEL_NAME prompt system_instruction]
      in case c attempt MODEL_NAME prompt system_instruction of
           Inr text \<Rightarrow> (Returned \<lparr>status = 200, body = Success_body text\<rparr>, tr')
         | Inl (APIError m) \<Rightarrow>
             if attempt < MAX_RETRIES - 1
             then retry_loop c prompt attempts (tr' @ [Sleep (2 ^ attempt)])
             else (Returned \<lparr>status = 500, body = Error_body
                     (''Gemini API Error after '' @ str_nat MAX_RETRIES @ '' attempts: '' @ m)\<rparr>, tr')
         | Inl e \<Rightarrow>
             (Returned \<lparr>status = 500, body = Error_body (''Unexpected error: '' @ str_exn e)\<rparr>, tr'))"

section \<open>The request and the handler (lines 55-157)\<close>

text \<open>
  An uploaded file has a name and the outcome of \<open>read()\<close>. A request has its content
  length, the file and form fields it carries, in order, and the outcome of the form
  parser on its body. Reading \<open>request.files\<close> or \<open>request.form\<close> parses the body, once:
  Flask raises 413 there when the content length is over \<open>MAX_CONTENT_LENGTH\<close> (line 20),
  and the parser may raise within that limit too (413 for a form field or a number of
  parts over the parser's own limits). What the parser raises within the limit is the
  field \<open>parse_error\<close> of the request, \<open>None\<close> when it raises nothing.
\<close>

record file_storage =
  filename :: string
  read :: "exn + string"

record request =
  content_length :: nat
  parse_error :: "exn option"
  files :: "(string \<times> file_storage) list"
  form :: "(string \<times> string) list"

text \<open>The exception, if any, that parsing the body of the request raises.\<close>

definition load_form_data :: "request \<Rightarrow> exn option" where
  "load_form_data req =
     (if content_length req > MAX_CONTENT_LENGTH
      then Some (HTTPException 413 ''Request Entity Too Large'')
      else parse_error req)"

definition request_files :: "request \<Rightarrow> exn + (string \<times> file_storage) list" where
  "request_files req =
     (case load_form_data req of
        Some e \<Rightarrow> Inl e
      | None \<Rightarrow> Inr (files req))"

definition request_form :: "request \<Rightarrow> exn + (string \<times> string) list" where
  "request_form req =
     (case load_form_data req of
        Some e \<Rightarrow> Inl e
      | None \<Rightarrow> Inr (form req))"

definition json_error :: "nat \<Rightarrow> string \<Rightarrow> response" where
  "json_error code msg = \<lparr>status = code, body = Error_body msg\<rparr>"

text \<open>\<open>index\<close> (lines 55-59); \<open>render_template\<close> is a parameter.\<close>

definition index :: "(string \<Rightarrow> (string \<times> string) list \<Rightarrow> 'html) \<Rightarrow> 'html" where
  "index render_template = render_template ''index.html'' [(''title'', ''AI Resume Analyzer'')]"

text \<open>The inside of the outer \<open>try\<close> (lines 86-152).\<close>

definition analyze_try :: "client \<Rightarrow> pdf_reader \<Rightarrow> file_storage \<Rightarrow> string \<Rightarrow> outcome \<times> event list" where
  "analyze_try c PdfReader resume_file job_description =
     (case read resume_file of
        Inl e \<Rightarrow> (Raised e, [])
      | Inr pdf_stream \<Rightarrow>
          (let resume_text = extract_text_from_pdf PdfReader pdf_stream
           in if py_not resume_text
              then (Returned (json_error 500
                ''Could not extract readable text from PDF. The document might be an image-only PDF.''), [])
              else retry_loop c (user_prompt job_description (the resume_text))
                     [0 ..< MAX_RETRIES] []))"

text \<open>\<open>analyze_resume\<close> (lines 62-157), with the global \<open>client\<close> as first argument.\<close>

definition analyze_resume :: "client option \<Rightarrow> pdf_reader \<Rightarrow> request \<Rightarrow> outcome \<times> event list" where
  "analyze_resume client PdfReader req =
     (case client of
        None \<Rightarrow> (Returned (json_error 500
          ''Gemini API client not initialized. Check server logs for API Key error.''), [])
      | Some c \<Rightarrow>
     (case request_files req of
        Inl e \<Rightarrow> (Raised e, [])
      | Inr fs \<Rightarrow>
     (case map_of fs ''resume'' of
        None \<Rightarrow> (Returned (json_error 400
          ''Missing required data: resume file or job description.''), [])
      | Some resume_file \<Rightarrow>
     (case request_form req of
        Inl e \<Rightarrow> (Raised e, [])
      | Inr fm \<Rightarrow>
     (case map_of fm ''job_description'' of
        None \<Rightarrow> (Returned (json_error 400
          ''Missing required data: resume file or job description.''), [])
      | Some job_description \<Rightarrow>
          if filename resume_file = []
          then (Returned (json_error 400 ''No resume file selected.''), [])
          else if \<not> endswith (lower (filename resume_file)) ''.pdf''
          then (Returned (json_error 400 ''Invalid file type. Please upload a PDF file.''), [])
          else if strip job_description = []
          then (Returned (json_error 400 ''Job description cannot be empty.''), [])
          else
            (case analyze_try c PdfReader resume_file job_description of
               (Raised e, tr) \<Rightarrow>
                 (Returned (json_error 500 (''Internal Server Error: '' @ str_exn e)), tr)
             | (r, tr) \<Rightarrow> (r, tr)))))))"

section \<open>Notions used to state the properties\<close>

text \<open>
  A request that passes the checks of lines 70-83 with this file and job description: its
  form data is read without an exception, and the tests let it through.
\<close>

definition accepted :: "request \<Rightarrow> file_storage \<Rightarrow> string \<Rightarrow> bool" where
  "accepted req resume_file job_description =
     (load_form_data req = None \<and>
      map_of (files req) ''resume'' = Some resume_file \<and>
      map_of (form req) ''job_description'' = Some job_description \<and>
      filename resume_file \<noteq> [] \<and>
      endswith (lower (filename resume_file)) ''.pdf'' \<and>
      strip job_description \<noteq> [])"

text \<open>
  A document without extractable text: the reader raises, a page raises, or every page is
  empty or all white space.
\<close>

fun blank_page :: "page \<Rightarrow> bool" where
  "blank_page (Inl e) = False"
| "blank_page (Inr t) = list_all isspace t"

fun no_extractable_text :: "exn + page list \<Rightarrow> bool" where
  "no_extractable_text (Inl e) = True"
| "no_extractable_text (Inr pages) = (list_ex isl pages \<or> list_all blank_page pages)"

text \<open>
  The extractor in the words of its description: the texts of the pages that yielded
  text, joined with newline separators.
\<close>

fun yielded :: "page list \<Rightarrow> string list" where
  "yielded [] = []"
| "yielded (Inl e # pages) = yielded pages"
| "yielded (Inr t # pages) = (if t \<noteq> [] then t # yielded pages else yielded pages)"

fun join_lines :: "string list \<Rightarrow> string" where
  "join_lines [] = []"
| "join_lines [t] = t"
| "join_lines (t # u # ts) = t @ ''\<newline>'' @ join_lines (u # ts)"

text \<open>The number of \<open>generate_content\<close> calls among the effects.\<close>

definition calls :: "event list \<Rightarrow> nat" where
  "calls tr = length (filter is_call tr)"

subsection \<open>Stubs for concrete runs\<close>

text \<open>A reader that finds one page whose text is the payload, and one that raises.\<close>

definition stub_reader :: pdf_reader where
  "stub_reader data = Inr [Inr data]"

definition stub_broken_reader :: pdf_reader where
  "stub_broken_reader data = Inl (OtherException ''EOF marker not found'')"

text \<open>A reader that finds three pages, the second without text, and one that finds two
  pages without text (a scanned document).\<close>

definition stub_pages_reader :: pdf_reader where
  "stub_pages_reader data = Inr [Inr ''  Jane Doe'', Inr [], Inr ''Go, Python  '']"

definition stub_scan_reader :: pdf_reader where
  "stub_scan_reader data = Inr [Inr [], Inr []]"

definition stub_file :: "exn + string \<Rightarrow> file_storage" where
  "stub_file r = \<lparr>filename = ''cv.PDF'', read = r\<rparr>"

definition stub_request :: "nat \<Rightarrow> exn + string \<Rightarrow> string \<Rightarrow> request" where
  "stub_request n r jd =
     \<lparr>content_length = n, parse_error = None,
      files = [(''resume'', stub_file r)], form = [(''job_description'', jd)]\<rparr>"

text \<open>
  A client whose first \<open>k\<close> calls raise \<open>APIError\<close> and whose later calls end as \<open>r\<close>
  says.
\<close>

definition stub_client :: "nat \<Rightarrow> exn + string \<Rightarrow> client" where
  "stub_client k r n model contents instruction =
     (if n < k then Inl (APIError ''429 RESOURCE_EXHAUSTED'') else r)"

definition stub_Client :: "string \<Rightarrow> exn + client" where
  "stub_Client key = Inl (OtherException ''invalid credential'')"

section \<open>Auxiliary facts\<close>

subsection \<open>Strings and the loop bounds\<close>

lemma range_MAX_RETRIES: "[0 ..< MAX_RETRIES] = [0, 1, 2]"
  by (simp add: MAX_RETRIES_def upt_rec)

lemma str_MAX_RETRIES: "str_nat MAX_RETRIES = ''3''"
  by code_simp

lemma strip_all_space: "list_all isspace s \<Longrightarrow> strip s = []"
proof -
  assume "list_all isspace s"
  then have h: "dropWhile isspace s = []" by (simp add: list_all_iff)
  show ?thesis by (simp only: strip_def h rev.simps dropWhile.simps)
qed

lemma strip_snoc_space:
  assumes "isspace c"
  shows "strip (s @ [c]) = strip s"
proof (cases "list_all isspace s")
  case True
  then have "list_all isspace (s @ [c])" using assms by simp
  then show ?thesis using True by (simp only: strip_all_space)
next
  case False
  then obtain x where "x \<in> set s" "\<not> isspace x" by (auto simp: list_all_iff)
  then have "dropWhile isspace (s @ [c]) = dropWhile isspace s @ [c]"
    by (rule dropWhile_append1)
  then show ?thesis using assms by (simp add: strip_def)
qed

lemma isspace_newline: "isspace CHR ''\<newline>''"
  by (simp add: isspace_def)

lemma retry_loop_not_Raised: "fst (retry_loop c p as tr) \<noteq> Raised e"
  by (induction as arbitrary: tr) (auto simp: Let_def split: sum.splits exn.splits)

subsection \<open>The extractor\<close>

lemma extract_pages_raises: "list_ex isl pages \<Longrightarrow> isl (extract_pages pages acc)"
  by (induction pages arbitrary: acc) (auto split: sum.splits)

lemma extract_pages_blank:
  "list_all blank_page pages \<Longrightarrow> list_all isspace acc \<Longrightarrow>
   \<exists>t. extract_pages pages acc = Inr t \<and> list_all isspace t"
proof (induction pages arbitrary: acc)
  case Nil
  then show ?case by simp
next
  case (Cons p pages)
  then obtain s where p: "p = Inr s" and s: "list_all isspace s"
    by (cases p) auto
  have "list_all isspace (if s \<noteq> [] then acc @ (s @ ''\<newline>'') else acc)"
    using s Cons.prems(2) isspace_newline by simp
  moreover have "list_all blank_page pages" using Cons.prems(1) by simp
  ultimately show ?case using Cons.IH p by simp
qed

lemma extract_no_text:
  assumes "no_extractable_text (R d)"
  shows "py_not (extract_text_from_pdf R d)"
proof (cases "R d")
  case (Inl e)
  then show ?thesis by (simp add: extract_text_from_pdf_def py_not_def)
next
  case (Inr pages)
  show ?thesis
  proof (cases "list_ex isl pages")
    case True
    then have "isl (extract_pages pages [])" by (rule extract_pages_raises)
    then show ?thesis using Inr
      by (auto simp: extract_text_from_pdf_def py_not_def split: sum.splits)
  next
    case False
    then have "list_all blank_page pages" using assms Inr by simp
    then obtain t where "extract_pages pages [] = Inr t" "list_all isspace t"
      using extract_pages_blank [of pages "[]"] by auto
    then show ?thesis using Inr
      by (simp add: extract_text_from_pdf_def py_not_def strip_all_space)
  qed
qed

lemma extract_pages_yielded:
  "\<not> list_ex isl pages \<Longrightarrow>
   extract_pages pages acc = Inr (acc @ concat (map (\<lambda>t. t @ ''\<newline>'') (yielded pages)))"
proof (induction pages arbitrary: acc)
  case Nil
  then show ?case by simp
next
  case (Cons p pages)
  then show ?case by (cases p) auto
qed

lemma concat_join_lines:
  "ts \<noteq> [] \<Longrightarrow> concat (map (\<lambda>t. t @ ''\<newline>'') ts) = join_lines ts @ ''\<newline>''"
  by (induction ts rule: join_lines.induct) auto

lemma strip_concat_lines: "strip (concat (map (\<lambda>t. t @ ''\<newline>'') ts)) = strip (join_lines ts)"
proof (cases "ts = []")
  case True
  then show ?thesis by simp
next
  case False
  then show ?thesis
    using strip_snoc_space [OF isspace_newline, of "join_lines ts"]
    by (simp add: concat_join_lines)
qed

lemma extract_text_from_pdf_spec:
  "extract_text_from_pdf R d =
     (case R d of
        Inl e \<Rightarrow> None
      | Inr pages \<Rightarrow>
          if list_ex isl pages then None else Some (strip (join_lines (yielded pages))))"
proof (cases "R d")
  case (Inl e)
  then show ?thesis by (simp add: extract_text_from_pdf_def)
next
  case (Inr pages)
  show ?thesis
  proof (cases "list_ex isl pages")
    case True
    then have "isl (extract_pages pages [])" by (rule extract_pages_raises)
    then show ?thesis using Inr True
      by (auto simp: extract_text_from_pdf_def split: sum.splits)
  next
    case False
    then show ?thesis using Inr
      by (simp add: extract_text_from_pdf_def extract_pages_yielded strip_concat_lines)
  qed
qed

subsection \<open>The handler up to the call\<close>

lemma analyze_resume_accepted:
  "accepted req f jd \<Longrightarrow>
   analyze_resume (Some c) R req =
     (case analyze_try c R f jd of
        (Raised e, tr) \<Rightarrow> (Returned (json_error 500 (''Internal Server Error: '' @ str_exn e)), tr)
      | (r, tr) \<Rightarrow> (r, tr))"
  by (simp add: analyze_resume_def accepted_def request_files_def request_form_def)

lemma analyze_try_call:
  "read f = Inr data \<Longrightarrow> extract_text_from_pdf R data = Some rt \<Longrightarrow> rt \<noteq> [] \<Longrightarrow>
   analyze_try c R f jd = retry_loop c (user_prompt jd rt) [0, 1, 2] []"
  by (simp add: analyze_try_def py_not_def range_MAX_RETRIES)

lemma analyze_resume_call:
  assumes "accepted req f jd" "read f = Inr data"
    "extract_text_from_pdf R data = Some rt" "rt \<noteq> []"
  shows "analyze_resume (Some c) R req = retry_loop c (user_prompt jd rt) [0, 1, 2] []"
proof -
  obtain r tr where rt: "retry_loop c (user_prompt jd rt) [0, 1, 2] [] = (r, tr)"
    by (cases "retry_loop c (user_prompt jd rt) [0, 1, 2] []")
  have "r \<noteq> Raised e" for e
    using retry_loop_not_Raised [of c "user_prompt jd rt" "[0, 1, 2]" "[]" e] rt by simp
  then have "(case (r, tr) of
        (Raised e, tr) \<Rightarrow> (Returned (json_error 500 (''Internal Server Error: '' @ str_exn e)), tr)
      | (r, tr) \<Rightarrow> (r, tr)) = (r, tr)"
    by (cases r) auto
  then show ?thesis
    using assms rt by (simp only: analyze_resume_accepted [OF assms(1)] analyze_try_call [OF assms(2-4)])
qed

lemma retry_loop_outcome:
  "\<exists>r tr'. retry_loop c p [0, 1, 2] tr = (Returned r, tr') \<and>
     ((status r = 200 \<and> (\<exists>k<MAX_RETRIES. \<exists>t. c k MODEL_NAME p system_instruction = Inr t
                                \<and> body r = Success_body t))
      \<or> (status r = 500 \<and> (\<exists>m. body r = Error_body m)))"
proof -
  have k: "(0::nat) < MAX_RETRIES" "(1::nat) < MAX_RETRIES" "(2::nat) < MAX_RETRIES"
    by (simp_all add: MAX_RETRIES_def)
  show ?thesis
  proof (cases "c 0 MODEL_NAME p system_instruction")
    case (Inr t)
    then show ?thesis using k(1) by (auto simp: Let_def)
  next
    case e0: (Inl e0)
    show ?thesis
    proof (cases "is_APIError e0")
      case False
      then show ?thesis using e0 by (cases e0) (auto simp: Let_def)
    next
      case True
      then obtain m0 where m0: "e0 = APIError m0" by (cases e0) auto
      show ?thesis
      proof (cases "c 1 MODEL_NAME p system_instruction")
        case (Inr t)
        then show ?thesis using e0 m0 k(2)
          by (auto simp: Let_def MAX_RETRIES_def intro!: exI [of _ "Suc 0"])
      next
        case e1: (Inl e1)
        show ?thesis
        proof (cases "is_APIError e1")
          case False
          then show ?thesis using e0 m0 e1 by (cases e1) (auto simp: Let_def MAX_RETRIES_def)
        next
          case True
          then obtain m1 where m1: "e1 = APIError m1" by (cases e1) auto
          show ?thesis
          proof (cases "c 2 MODEL_NAME p system_instruction")
            case (Inr t)
            then show ?thesis using e0 m0 e1 m1 k(3)
              by (auto simp: Let_def MAX_RETRIES_def intro!: exI [of _ 2])
          next
            case e2: (Inl e2)
            then show ?thesis using e0 m0 e1 m1
              by (cases e2) (auto simp: Let_def MAX_RETRIES_def)
          qed
        qed
      qed
    qed
  qed
qed

subsection \<open>The stubs\<close>

lemma stub_filename_pdf: "endswith (lower ''cv.PDF'') ''.pdf''"
  by code_simp

lemma stub_accepted:
  "n \<le> MAX_CONTENT_LENGTH \<Longrightarrow> strip jd \<noteq> [] \<Longrightarrow> accepted (stub_request n r jd) (stub_file r) jd"
  by (simp add: accepted_def load_form_data_def stub_request_def stub_file_def stub_filename_pdf)

lemma stub_limit: "2048 \<le> MAX_CONTENT_LENGTH"
  by (simp add: MAX_CONTENT_LENGTH_def)

lemma stub_reader_extract: "extract_text_from_pdf stub_reader ''Python and Go'' = Some ''Python and Go''"
  by code_simp

lemma strip_job: "strip ''Go developer'' \<noteq> []"
  by code_simp

lemma stub_job_accepted:
  "accepted (stub_request 2048 r ''Go developer'') (stub_file r) ''Go developer''"
  by (rule stub_accepted [OF stub_limit strip_job])

lemma stub_read: "read (stub_file r) = r"
  by (simp add: stub_file_def)

lemma blank_doc: "no_extractable_text (stub_reader '' \<newline>  '')"
  by code_simp

section \<open>Properties of the handler\<close>

subsection \<open>Extraction failure\<close>

text \<open>
  C1. A request that passes the checks and whose uploaded document gives no extractable
  text (the reader raises, a page raises, or every page is empty or white space) gets
  the 500 response that mentions image-only PDFs, and the client is never called.
\<close>

theorem C1_no_text_extraction_failure:
  assumes "accepted req f jd" and "read f = Inr data" and "no_extractable_text (R data)"
  shows "analyze_resume (Some c) R req =
           (Returned (json_error 500
              ''Could not extract readable text from PDF. The document might be an image-only PDF.''), [])
         \<and> calls (snd (analyze_resume (Some c) R req)) = 0"
  using extract_no_text [of R data, OF assms(3)] assms(2)
  by (simp add: analyze_resume_accepted [OF assms(1)] analyze_try_def calls_def)

text \<open>
  A run: one page of white space.
\<close>

theorem C1_no_text_extraction_failure_witness:
  "analyze_resume (Some (stub_client 0 (Inr ''unused''))) stub_reader
     (stub_request 2048 (Inr '' \<newline>  '') ''Go developer'') =
   (Returned (json_error 500
      ''Could not extract readable text from PDF. The document might be an image-only PDF.''), [])"
  using C1_no_text_extraction_failure [where R = stub_reader and data = "'' \<newline>  ''", OF stub_job_accepted stub_read blank_doc]
  by simp

subsection \<open>The retry loop\<close>

text \<open>
  C2. When the first two calls of the client raise \<open>APIError\<close> and the third returns, the
  handler answers 200 with the generated text; the client is called exactly three times,
  with a sleep of 1 second after the first call and of 2 seconds after the second
  (\<open>2 ^ attempt\<close> for attempts 0 and 1).
\<close>

theorem C2_retry_twice_then_success:
  assumes "accepted req f jd" and "read f = Inr data"
    and "extract_text_from_pdf R data = Some rt" and "rt \<noteq> []"
    and "c 0 MODEL_NAME (user_prompt jd rt) system_instruction = Inl (APIError m1)"
    and "c 1 MODEL_NAME (user_prompt jd rt) system_instruction = Inl (APIError m2)"
    and "c 2 MODEL_NAME (user_prompt jd rt) system_instruction = Inr answer"
  shows "analyze_resume (Some c) R req =
           (Returned \<lparr>status = 200, body = Success_body answer\<rparr>,
            [Generate_content MODEL_NAME (user_prompt jd rt) system_instruction, Sleep 1,
             Generate_content MODEL_NAME (user_prompt jd rt) system_instruction, Sleep 2,
             Generate_content MODEL_NAME (user_prompt jd rt) system_instruction])
         \<and> calls (snd (analyze_resume (Some c) R req)) = 3"
  using assms(5-7)
  by (simp add: analyze_resume_call [OF assms(1-4)] Let_def MAX_RETRIES_def calls_def)

text \<open>
  A run: a client that fails twice with a rate limit error, then answers.
\<close>

theorem C2_retry_twice_then_success_witness:
  "analyze_resume (Some (stub_client 2 (Inr ''**85/100**''))) stub_reader
     (stub_request 2048 (Inr ''Python and Go'') ''Go developer'') =
   (Returned \<lparr>status = 200, body = Success_body ''**85/100**''\<rparr>,
    [Generate_content MODEL_NAME (user_prompt ''Go developer'' ''Python and Go'') system_instruction, Sleep 1,
     Generate_content MODEL_NAME (user_prompt ''Go developer'' ''Python and Go'') system_instruction, Sleep 2,
     Generate_content MODEL_NAME (user_prompt ''Go developer'' ''Python and Go'') system_instruction])"
proof -
  have n: "''Python and Go'' \<noteq> []" by simp
  have c: "stub_client 2 (Inr ''**85/100**'') 0 m u s = Inl (APIError ''429 RESOURCE_EXHAUSTED'')"
    "stub_client 2 (Inr ''**85/100**'') 1 m u s = Inl (APIError ''429 RESOURCE_EXHAUSTED'')"
    "stub_client 2 (Inr ''**85/100**'') 2 m u s = Inr ''**85/100**''" for m u s
    by (simp_all add: stub_client_def)
  show ?thesis
    using C2_retry_twice_then_success [OF stub_job_accepted stub_read stub_reader_extract n c(1) c(2) c(3)]
    by simp
qed

text \<open>
  C3. When all three calls raise \<open>APIError\<close>, the handler makes no fourth call and answers
  500 with a message that names the 3 attempts and carries the text of the last error.
\<close>

theorem C3_retries_exhausted:
  assumes "accepted req f jd" and "read f = Inr data"
    and "extract_text_from_pdf R data = Some rt" and "rt \<noteq> []"
    and "c 0 MODEL_NAME (user_prompt jd rt) system_instruction = Inl (APIError m1)"
    and "c 1 MODEL_NAME (user_prompt jd rt) system_instruction = Inl (APIError m2)"
    and "c 2 MODEL_NAME (user_prompt jd rt) system_instruction = Inl (APIError m3)"
  shows "analyze_resume (Some c) R req =
           (Returned (json_error 500 (''Gemini API Error after 3 attempts: '' @ m3)),
            [Generate_content MODEL_NAME (user_prompt jd rt) system_instruction, Sleep 1,
             Generate_content MODEL_NAME (user_prompt jd rt) system_instruction, Sleep 2,
             Generate_content MODEL_NAME (user_prompt jd rt) system_instruction])
         \<and> calls (snd (analyze_resume (Some c) R req)) = 3"
  using assms(5-7) str_MAX_RETRIES
  by (simp add: analyze_resume_call [OF assms(1-4)] Let_def json_error_def calls_def)
     (simp add: MAX_RETRIES_def)

text \<open>
  A run: a client that always fails with a rate limit error.
\<close>

theorem C3_retries_exhausted_witness:
  "analyze_resume (Some (stub_client 3 (Inr ''unused''))) stub_reader
     (stub_request 2048 (Inr ''Python and Go'') ''Go developer'') =
   (Returned (json_error 500 ''Gemini API Error after 3 attempts: 429 RESOURCE_EXHAUSTED''),
    [Generate_content MODEL_NAME (user_prompt ''Go developer'' ''Python and Go'') system_instruction, Sleep 1,
     Generate_content MODEL_NAME (user_prompt ''Go developer'' ''Python and Go'') system_instruction, Sleep 2,
     Generate_content MODEL_NAME (user_prompt ''Go developer'' ''Python and Go'') system_instruction])"
proof -
  have n: "''Python and Go'' \<noteq> []" by simp
  have c: "stub_client 3 (Inr ''unused'') 0 m u s = Inl (APIError ''429 RESOURCE_EXHAUSTED'')"
    "stub_client 3 (Inr ''unused'') 1 m u s = Inl (APIError ''429 RESOURCE_EXHAUSTED'')"
    "stub_client 3 (Inr ''unused'') 2 m u s = Inl (APIError ''429 RESOURCE_EXHAUSTED'')" for m u s
    by (simp_all add: stub_client_def)
  show ?thesis
    using C3_retries_exhausted [OF stub_job_accepted stub_read stub_reader_extract n c(1) c(2) c(3)]
    by simp
qed

text \<open>
  C4, as the code has it. When a call raises an exception that is not an \<open>APIError\<close>,
  after \<open>k\<close> calls that raised \<open>APIError\<close>, the handler stops at once: it answers 500
  with "Unexpected error" and the text of the exception, the failing call is the last
  effect, and the client has been called \<open>k + 1\<close> times, which is once when the first call
  fails.
\<close>

theorem C4_unexpected_error_stops_loop:
  assumes "accepted req f jd" and "read f = Inr data"
    and "extract_text_from_pdf R data = Some rt" and "rt \<noteq> []"
    and "k < MAX_RETRIES"
    and "\<forall>j<k. \<exists>m. c j MODEL_NAME (user_prompt jd rt) system_instruction = Inl (APIError m)"
    and "c k MODEL_NAME (user_prompt jd rt) system_instruction = Inl e"
    and "\<not> is_APIError e"
  shows "analyze_resume (Some c) R req =
           (Returned (json_error 500 (''Unexpected error: '' @ str_exn e)),
            concat (map (\<lambda>j. [Generate_content MODEL_NAME (user_prompt jd rt) system_instruction,
                                Sleep (2 ^ j)]) [0 ..< k])
            @ [Generate_content MODEL_NAME (user_prompt jd rt) system_instruction])
         \<and> calls (snd (analyze_resume (Some c) R req)) = k + 1"
proof -
  note call = analyze_resume_call [OF assms(1-4)]
  have "k = 0 \<or> k = 1 \<or> k = 2"
    using assms(5) unfolding MAX_RETRIES_def by arith
  then consider "k = 0" | "k = 1" | "k = 2"
    by blast
  then show ?thesis
  proof cases
    case 1
    then show ?thesis using assms(7,8)
      by (cases e) (simp_all add: call Let_def json_error_def calls_def)
  next
    case 2
    then obtain m0 where
      "c 0 MODEL_NAME (user_prompt jd rt) system_instruction = Inl (APIError m0)"
      using assms(6) by auto
    then show ?thesis using 2 assms(7,8)
      by (cases e) (simp_all add: call Let_def json_error_def calls_def MAX_RETRIES_def)
  next
    case 3
    then obtain m0 m1 where
      "c 0 MODEL_NAME (user_prompt jd rt) system_instruction = Inl (APIError m0)"
      "c 1 MODEL_NAME (user_prompt jd rt) system_instruction = Inl (APIError m1)"
      using assms(6) by (metis zero_less_numeral one_less_numeral_iff semiring_norm(76))
    then show ?thesis using 3 assms(7,8)
      by (cases e) (simp_all add: call Let_def json_error_def calls_def MAX_RETRIES_def upt_rec)
  qed
qed

text \<open>
  The count is not one on every attempt: when the first call raises \<open>APIError\<close> and the
  second raises another exception, the client has been called twice.
\<close>

theorem C4_invoked_twice_counterexample:
  "stub_client 1 (Inl (OtherException ''boom'')) 1 MODEL_NAME
     (user_prompt ''Go developer'' ''Python and Go'') system_instruction = Inl (OtherException ''boom'')
   \<and> analyze_resume (Some (stub_client 1 (Inl (OtherException ''boom'')))) stub_reader
     (stub_request 2048 (Inr ''Python and Go'') ''Go developer'') =
     (Returned (json_error 500 ''Unexpected error: boom''),
      [Generate_content MODEL_NAME (user_prompt ''Go developer'' ''Python and Go'') system_instruction,
       Sleep 1,
       Generate_content MODEL_NAME (user_prompt ''Go developer'' ''Python and Go'') system_instruction])
   \<and> calls (snd (analyze_resume (Some (stub_client 1 (Inl (OtherException ''boom'')))) stub_reader
     (stub_request 2048 (Inr ''Python and Go'') ''Go developer''))) = 2"
proof -
  have n: "''Python and Go'' \<noteq> []" by simp
  show ?thesis
    by (simp add: analyze_resume_call [OF stub_job_accepted stub_read stub_reader_extract n]
          stub_client_def Let_def json_error_def calls_def MAX_RETRIES_def)
qed

text \<open>
  A run: two rate limit errors, then an unexpected exception on the third call.
\<close>

theorem C4_unexpected_error_stops_loop_witness:
  "analyze_resume (Some (stub_client 2 (Inl (OtherException ''boom'')))) stub_reader
     (stub_request 2048 (Inr ''Python and Go'') ''Go developer'') =
     (Returned (json_error 500 ''Unexpected error: boom''),
      [Generate_content MODEL_NAME (user_prompt ''Go developer'' ''Python and Go'') system_instruction,
       Sleep 1,
       Generate_content MODEL_NAME (user_prompt ''Go developer'' ''Python and Go'') system_instruction,
       Sleep 2,
       Generate_content MODEL_NAME (user_prompt ''Go developer'' ''Python and Go'') system_instruction])
   \<and> calls (snd (analyze_resume (Some (stub_client 2 (Inl (OtherException ''boom'')))) stub_reader
     (stub_request 2048 (Inr ''Python and Go'') ''Go developer''))) = 3"
proof -
  have n: "''Python and Go'' \<noteq> []" by simp
  have k: "(2::nat) < MAX_RETRIES" by (simp add: MAX_RETRIES_def)
  have a: "\<forall>j<2. \<exists>m. stub_client 2 (Inl (OtherException ''boom'')) j MODEL_NAME
      (user_prompt ''Go developer'' ''Python and Go'') system_instruction = Inl (APIError m)"
    by (simp add: stub_client_def)
  have b: "stub_client 2 (Inl (OtherException ''boom'')) 2 MODEL_NAME
      (user_prompt ''Go developer'' ''Python and Go'') system_instruction = Inl (OtherException ''boom'')"
    by (simp add: stub_client_def)
  have e: "\<not> is_APIError (OtherException ''boom'')" by simp
  show ?thesis
    using C4_unexpected_error_stops_loop [where c = "stub_client 2 (Inl (OtherException ''boom''))" and k = 2,
              OF stub_job_accepted stub_read stub_reader_extract n k a b e]
    by (simp add: upt_rec calls_def)
qed

subsection \<open>The prompt\<close>

text \<open>
  C5. The user message is a fixed text around the job description and the resume text,
  both as they are, followed by the four numbered section headers in their order. The
  surrounding pieces do not depend on the two strings, and \<open>user_prompt\<close> is a function.
\<close>

theorem C5_user_prompt_contents:
  "\<exists>a b p0 p1 p2 p3 p4. \<forall>job_description resume_text.
     user_prompt job_description resume_text =
       a @ job_description @ b @ resume_text @
       p0 @ ''1.  **ATS Match Score:**'' @
       p1 @ ''2.  **Missing Keywords/Skills:**'' @
       p2 @ ''3.  **Summary of Strengths:**'' @
       p3 @ ''4.  **Actionable Improvement Suggestions:**'' @ p4"
proof (intro exI allI)
  fix job_description resume_text
  show "user_prompt job_description resume_text =
    ''\<newline>        Analyze the candidate's resume based on the following job description.\<newline>\<newline>        ## Job Description:\<newline>        ---\<newline>        ''
    @ job_description @
    ''\<newline>        ---\<newline>\<newline>        ## Candidate Resume Text (Extracted):\<newline>        ---\<newline>        ''
    @ resume_text @
    ''\<newline>        ---\<newline>\<newline>        Your analysis must strictly follow this structure:\<newline>\<newline>        ''
    @ ''1.  **ATS Match Score:**'' @
    '' A percentage score out of 100 (e.g., 78/100) indicating the match level. Use bold text for the score.\<newline>        ''
    @ ''2.  **Missing Keywords/Skills:**'' @
    '' A bulleted list of up to 5 essential skills/keywords mentioned in the Job Description but *missing* from the Resume. If none are missing, state that clearly.\<newline>        ''
    @ ''3.  **Summary of Strengths:**'' @
    '' A concise, single paragraph highlighting the candidate's best relevant qualifications for the role.\<newline>        ''
    @ ''4.  **Actionable Improvement Suggestions:**'' @
    '' A bulleted list of 3-5 concrete, specific suggestions on how to modify the resume text to increase the match score.\<newline>        ''"
    by (simp add: user_prompt_def)
qed

subsection \<open>The extractor\<close>

text \<open>
  C6. The extractor returns \<open>None\<close> when the reader or a page raises; otherwise it returns
  the texts of the pages that yielded text, joined with newline separators and stripped.
  When the reader or a page raises, or no page yields text, the result is what line 91
  takes as no text (\<open>None\<close> after an exception, the empty string when no page yields
  text); no exception leaves the function.
\<close>

theorem C6_extractor_contract:
  "extract_text_from_pdf R d =
     (case R d of
        Inl e \<Rightarrow> None
      | Inr pages \<Rightarrow>
          if list_ex isl pages then None else Some (strip (join_lines (yielded pages))))
   \<and> ((isl (R d) \<or> R d = Inr pages \<and> (list_ex isl pages \<or> yielded pages = []))
        \<longrightarrow> py_not (extract_text_from_pdf R d))"
proof
  show "extract_text_from_pdf R d =
     (case R d of
        Inl e \<Rightarrow> None
      | Inr pages \<Rightarrow>
          if list_ex isl pages then None else Some (strip (join_lines (yielded pages))))"
    by (rule extract_text_from_pdf_spec)
  show "(isl (R d) \<or> R d = Inr pages \<and> (list_ex isl pages \<or> yielded pages = []))
        \<longrightarrow> py_not (extract_text_from_pdf R d)"
    by (cases "R d") (auto simp: extract_text_from_pdf_spec [of R d] py_not_def strip_def)
qed

text \<open>
  Runs: three pages of which one is empty, a scanned document, an unreadable one.
\<close>

theorem C6_extractor_contract_witness:
  "extract_text_from_pdf stub_pages_reader ''%PDF-1.7'' = Some ''Jane Doe\<newline>Go, Python''
   \<and> py_not (extract_text_from_pdf stub_scan_reader ''%PDF-1.7'')
   \<and> py_not (extract_text_from_pdf stub_broken_reader ''%PDF-1.7'')"
proof -
  have s: "strip (join_lines (yielded [Inr ''  Jane Doe'', Inr [], Inr ''Go, Python  ''])) =
           ''Jane Doe\<newline>Go, Python''"
    by code_simp
  have "extract_text_from_pdf stub_pages_reader ''%PDF-1.7'' = Some ''Jane Doe\<newline>Go, Python''"
    using C6_extractor_contract [of stub_pages_reader "''%PDF-1.7''"] s by (simp add: stub_pages_reader_def)
  moreover have "py_not (extract_text_from_pdf stub_scan_reader ''%PDF-1.7'')"
    using C6_extractor_contract [of stub_scan_reader "''%PDF-1.7''" "[Inr [], Inr []]", THEN conjunct2]
    by (simp add: stub_scan_reader_def)
  moreover have "py_not (extract_text_from_pdf stub_broken_reader ''%PDF-1.7'')"
    using C6_extractor_contract [of stub_broken_reader "''%PDF-1.7''", THEN conjunct2]
    by (simp add: stub_broken_reader_def)
  ultimately show ?thesis by blast
qed

subsection \<open>Validation and the order of the checks\<close>

text \<open>
  C7, as the code has it. With the client initialised, a request whose form data is read
  without an exception and that has no \<open>resume\<close> file field or no \<open>job_description\<close>
  form field gets the 400 response, and the client is never called.
\<close>

theorem C7_missing_field:
  assumes "load_form_data req = None"
    and "map_of (files req) ''resume'' = None \<or> map_of (form req) ''job_description'' = None"
  shows "analyze_resume (Some c) R req =
           (Returned (json_error 400 ''Missing required data: resume file or job description.''), [])
         \<and> calls (snd (analyze_resume (Some c) R req)) = 0"
  using assms
  by (auto simp: analyze_resume_def request_files_def request_form_def calls_def
           split: option.splits)

text \<open>
  Reading \<open>request.files\<close> on line 70 can raise before the test is made: over the upload
  limit it raises 413, and a request without the file field then gets no 400.
\<close>

theorem C7_request_too_large_counterexample:
  "map_of (files \<lparr>content_length = 16777217, parse_error = None, files = [],
                  form = [(''job_description'', ''Go developer'')]\<rparr>) ''resume'' = None \<and>
   analyze_resume (Some (stub_client 0 (Inr ''unused''))) stub_reader
     \<lparr>content_length = 16777217, parse_error = None, files = [],
      form = [(''job_description'', ''Go developer'')]\<rparr> =
   (Raised (HTTPException 413 ''Request Entity Too Large''), [])"
  by (simp add: analyze_resume_def request_files_def load_form_data_def MAX_CONTENT_LENGTH_def)

text \<open>
  A run: a small request without the file field.
\<close>

theorem C7_missing_field_witness:
  "analyze_resume (Some (stub_client 0 (Inr ''unused''))) stub_reader
     \<lparr>content_length = 2048, parse_error = None, files = [],
      form = [(''job_description'', ''Go developer'')]\<rparr> =
   (Returned (json_error 400 ''Missing required data: resume file or job description.''), [])"
proof -
  have l: "load_form_data \<lparr>content_length = 2048, parse_error = None, files = [],
      form = [(''job_description'', ''Go developer'')]\<rparr> = None"
    by (simp add: load_form_data_def MAX_CONTENT_LENGTH_def)
  show ?thesis
    using C7_missing_field [where c = "stub_client 0 (Inr ''unused'')" and R = stub_reader, OF l]
    by simp
qed

text \<open>
  C8, as the code has it. When the key is empty or the constructor raises, start-up ends
  with \<open>client = None\<close>; every \<open>analyze_resume\<close> then answers 500 (not 503) with the
  message about the client, without any call; \<open>index\<close> renders the page as before.
\<close>

theorem C8_client_absent:
  assumes "GEMINI_API_KEY = [] \<or> isl (Client GEMINI_API_KEY)"
  shows "init_client GEMINI_API_KEY Client = None \<and>
         analyze_resume (init_client GEMINI_API_KEY Client) R req =
           (Returned (json_error 500
              ''Gemini API client not initialized. Check server logs for API Key error.''), []) \<and>
         index render_template = render_template ''index.html'' [(''title'', ''AI Resume Analyzer'')]"
  using assms
  by (auto simp: init_client_def analyze_resume_def index_def split: sum.splits)

text \<open>
  The status of that response is 500, not 503.
\<close>

theorem C8_status_500_counterexample:
  "analyze_resume (init_client [] stub_Client) stub_reader
     (stub_request 2048 (Inr ''Python and Go'') ''Go developer'') =
   (Returned \<lparr>status = 500, body = Error_body
      ''Gemini API client not initialized. Check server logs for API Key error.''\<rparr>, [])
   \<and> status \<lparr>status = 500, body = Error_body
      ''Gemini API client not initialized. Check server logs for API Key error.''\<rparr> \<noteq> 503"
  by (simp add: analyze_resume_def init_client_def json_error_def)

text \<open>
  A run: a constructor that rejects the key.
\<close>

theorem C8_client_absent_witness:
  "init_client ''wrong-key'' stub_Client = None \<and>
   analyze_resume (init_client ''wrong-key'' stub_Client) stub_reader
     (stub_request 2048 (Inr ''Python and Go'') ''Go developer'') =
     (Returned (json_error 500
        ''Gemini API client not initialized. Check server logs for API Key error.''), []) \<and>
   index (\<lambda>name args. name) = ''index.html''"
proof -
  have h: "''wrong-key'' = [] \<or> isl (stub_Client ''wrong-key'')"
    by (simp add: stub_Client_def)
  show ?thesis
    using C8_client_absent [where GEMINI_API_KEY = "''wrong-key''" and Client = stub_Client
              and R = stub_reader
              and req = "stub_request 2048 (Inr ''Python and Go'') ''Go developer''"
              and render_template = "\<lambda>name args. name", OF h]
    by blast
qed

text \<open>
  C9, as the code has it. The outer \<open>try\<close> starts at line 85, after the checks. Once a
  request has passed them, no exception leaves the handler, whatever \<open>read()\<close>, the
  reader, the pages and the calls of the client do: the outcome is a JSON response, 200
  with the text some call returned or 500 with an error body. An exception that leaves
  the body of the \<open>try\<close> becomes the 500 "Internal Server Error" body with its text; that
  is what happens when \<open>read()\<close> raises, the one call of lines 86-152 outside the inner
  handlers that can raise.
\<close>

theorem C9_exceptions_inside_try:
  assumes "accepted req f jd"
  shows "(\<exists>r tr. analyze_resume (Some c) R req = (Returned r, tr) \<and>
            ((status r = 200 \<and> (\<exists>t. body r = Success_body t)) \<or>
             (status r = 500 \<and> (\<exists>m. body r = Error_body m))))
       \<and> (\<forall>e tr. analyze_try c R f jd = (Raised e, tr) \<longrightarrow>
            analyze_resume (Some c) R req =
              (Returned (json_error 500 (''Internal Server Error: '' @ str_exn e)), tr))
       \<and> (\<forall>e. read f = Inl e \<longrightarrow>
            analyze_resume (Some c) R req =
              (Returned (json_error 500 (''Internal Server Error: '' @ str_exn e)), []))
       \<and> (\<forall>r tr. analyze_resume (Some c) R req = (Returned r, tr) \<and> status r = 200 \<longrightarrow>
            (\<exists>data rt k t. read f = Inr data \<and> extract_text_from_pdf R data = Some rt \<and>
               k < MAX_RETRIES \<and>
               c k MODEL_NAME (user_prompt jd rt) system_instruction = Inr t \<and>
               body r = Success_body t))"
proof -
  note conv = analyze_resume_accepted [OF assms, of c R]
  have outer: "analyze_resume (Some c) R req =
      (Returned (json_error 500 (''Internal Server Error: '' @ str_exn e)), tr)"
    if "analyze_try c R f jd = (Raised e, tr)" for e tr
    using that by (simp add: conv)
  have rd: "analyze_resume (Some c) R req =
      (Returned (json_error 500 (''Internal Server Error: '' @ str_exn e)), [])"
    if "read f = Inl e" for e
    using that by (simp add: conv analyze_try_def)
  have main: "\<exists>r tr. analyze_resume (Some c) R req = (Returned r, tr) \<and>
      ((status r = 200 \<and>
        (\<exists>data rt k t. read f = Inr data \<and> extract_text_from_pdf R data = Some rt \<and>
               k < MAX_RETRIES \<and>
               c k MODEL_NAME (user_prompt jd rt) system_instruction = Inr t \<and>
               body r = Success_body t))
       \<or> (status r = 500 \<and> (\<exists>m. body r = Error_body m)))"
  proof (cases "read f")
    case (Inl e)
    then show ?thesis using rd [of e] by (simp add: json_error_def)
  next
    case (Inr data)
    show ?thesis
    proof (cases "extract_text_from_pdf R data")
      case None
      then show ?thesis using Inr
        by (simp add: conv analyze_try_def py_not_def json_error_def)
    next
      case (Some rt)
      show ?thesis
      proof (cases "rt = []")
        case True
        then show ?thesis using Inr Some
          by (simp add: conv analyze_try_def py_not_def json_error_def)
      next
        case False
        have call: "analyze_resume (Some c) R req = retry_loop c (user_prompt jd rt) [0, 1, 2] []"
          by (rule analyze_resume_call [OF assms Inr Some False])
        obtain r tr where "retry_loop c (user_prompt jd rt) [0, 1, 2] [] = (Returned r, tr)"
          and "(status r = 200 \<and> (\<exists>k<MAX_RETRIES. \<exists>t.
                   c k MODEL_NAME (user_prompt jd rt) system_instruction = Inr t
                   \<and> body r = Success_body t))
               \<or> (status r = 500 \<and> (\<exists>m. body r = Error_body m))"
          using retry_loop_outcome [of c "user_prompt jd rt" "[]"] by blast
        then show ?thesis using call Inr Some by auto
      qed
    qed
  qed
  from main obtain r tr where r: "analyze_resume (Some c) R req = (Returned r, tr)"
    and cases: "(status r = 200 \<and>
        (\<exists>data rt k t. read f = Inr data \<and> extract_text_from_pdf R data = Some rt \<and>
               k < MAX_RETRIES \<and>
               c k MODEL_NAME (user_prompt jd rt) system_instruction = Inr t \<and>
               body r = Success_body t))
       \<or> (status r = 500 \<and> (\<exists>m. body r = Error_body m))"
    by blast
  have first: "\<exists>r tr. analyze_resume (Some c) R req = (Returned r, tr) \<and>
            ((status r = 200 \<and> (\<exists>t. body r = Success_body t)) \<or>
             (status r = 500 \<and> (\<exists>m. body r = Error_body m)))"
    using r cases by blast
  have last: "\<exists>data rt k t. read f = Inr data \<and> extract_text_from_pdf R data = Some rt \<and>
               k < MAX_RETRIES \<and>
               c k MODEL_NAME (user_prompt jd rt) system_instruction = Inr t \<and>
               body r' = Success_body t"
    if "analyze_resume (Some c) R req = (Returned r', tr')" "status r' = 200" for r' tr'
    using that r cases by auto
  show ?thesis using first outer rd last by blast
qed

text \<open>
  The checks of lines 70-83 are outside the \<open>try\<close>: the exception that reading
  \<open>request.files\<close> raises, here 413 over the upload limit, leaves the handler.
\<close>

theorem C9_request_too_large_counterexample:
  "analyze_resume (Some (stub_client 0 (Inr ''unused''))) stub_reader
     (stub_request 16777217 (Inr ''Python and Go'') ''Go developer'') =
   (Raised (HTTPException 413 ''Request Entity Too Large''), [])"
  by (simp add: analyze_resume_def request_files_def load_form_data_def stub_request_def
        MAX_CONTENT_LENGTH_def)

text \<open>
  A run: an upload whose \<open>read()\<close> raises.
\<close>

theorem C9_exceptions_inside_try_witness:
  "analyze_resume (Some (stub_client 0 (Inr ''unused''))) stub_reader
       (stub_request 2048 (Inl (OtherException ''stream closed'')) ''Go developer'') =
       (Returned (json_error 500 ''Internal Server Error: stream closed''), [])"
proof -
  have t: "analyze_try (stub_client 0 (Inr ''unused'')) stub_reader
      (stub_file (Inl (OtherException ''stream closed''))) ''Go developer'' =
      (Raised (OtherException ''stream closed''), [])"
    by (simp add: analyze_try_def stub_file_def)
  show ?thesis
    using C9_exceptions_inside_try [where c = "stub_client 0 (Inr ''unused'')" and R = stub_reader,
              OF stub_job_accepted [of "Inl (OtherException ''stream closed'')"]] t
    by simp
qed

text \<open>
  C10. The check of the client comes first: without a client the handler answers 500
  with the message about the client for every request, whatever its fields, file name,
  job description or size, and calls nothing.
\<close>

theorem C10_readiness_check_first:
  "analyze_resume None R req =
     (Returned (json_error 500
        ''Gemini API client not initialized. Check server logs for API Key error.''), [])"
  by (simp add: analyze_resume_def)

end
